theory Spec2Isabelle
  imports Main
begin

section \<open>Values shared by both surfaces\<close>

text \<open>
  A header or query value of type \<^verbatim>\<open>string | undefined\<close> is a \<open>string option\<close>.
  Of keys, ids, channel names and texts the handlers use only equality and emptiness,
  and \<^verbatim>\<open>parseInt\<close> reads Basic Latin; these strings are \<open>char\<close> lists. The names and
  the query that \<^verbatim>\<open>searchUsers\<close> lower-cases are lists of UTF-16 code units, see there.
  JavaScript's truthiness on a string or \<^verbatim>\<open>undefined\<close>: \<^verbatim>\<open>undefined\<close> and the empty
  string are falsy, every other string is truthy.
\<close>

fun truthy :: "string option \<Rightarrow> bool" where
  "truthy None = False"
| "truthy (Some s) = (s \<noteq> [])"

text \<open>
  \<^verbatim>\<open>a || b\<close> on a \<^verbatim>\<open>string | undefined\<close> left operand and a string right operand.
\<close>

fun or_default :: "string option \<Rightarrow> string \<Rightarrow> string" where
  "or_default None d = d"
| "or_default (Some s) d = (if s = [] then d else s)"

text \<open>
  \<^verbatim>\<open>ApiResponse = ApiSuccess | ApiError\<close> of types.ts. The fields a success carries
  differ from operation to operation, so they are a type parameter.
\<close>

datatype 'a api_response =
    ApiSuccess 'a
  | ApiError string "string option"

fun ok :: "'a api_response \<Rightarrow> bool" where
  "ok (ApiSuccess _) = True"
| "ok (ApiError _ _) = False"

section \<open>The session-addressed RPC mount (mcp.ts)\<close>

text \<open>
  A \<^verbatim>\<open>StreamableHTTPServerTransport\<close> object is known by its identity: the number of
  objects allocated before it. The module-level \<^verbatim>\<open>transports\<close> map is the registry.
\<close>

type_synonym transport = nat

record state =
  transports :: "string \<rightharpoonup> transport"
  allocated :: nat

record 'b request =
  x_api_key :: "string option"
  mcp_session_id :: "string option"
  body :: 'b

text \<open>
  What a route handler writes on \<^verbatim>\<open>res\<close> by itself:
  \<^verbatim>\<open>res.status(s).json({jsonrpc: "2.0", error: {code, message}, id: null})\<close> or
  \<^verbatim>\<open>res.status(s).send(text)\<close>.
\<close>

datatype http_reply =
    JsonRpcError nat int string
  | PlainText nat string

text \<open>
  \<^verbatim>\<open>transport.handleRequest\<close> belongs to the SDK. Of its behaviour the handlers see
  only whether the promise resolves or rejects, and in the second case the value of
  \<^verbatim>\<open>res.headersSent\<close> at that moment.
\<close>

datatype handle_result = Resolves | Rejects bool

text \<open>
  How a forwarded request ends: the transport answered; the fault was caught and the
  handler wrote a reply; the fault was caught with the headers already sent, so
  nothing is written; or the fault leaves the route handler as a rejected promise.
\<close>

datatype forward_end =
    Answered
  | Converted http_reply
  | Swallowed
  | Uncaught

datatype outcome =
    Replied http_reply
  | Forwarded transport forward_end

definition unauthorized :: http_reply where
  "unauthorized = JsonRpcError 401 (- 32000) ''Unauthorized: invalid or missing API key''"

definition bad_request :: http_reply where
  "bad_request =
     JsonRpcError 400 (- 32000) ''Bad request: missing session ID or not an init request''"

definition internal_error :: http_reply where
  "internal_error = JsonRpcError 500 (- 32603) ''Internal server error''"

definition invalid_session :: http_reply where
  "invalid_session = PlainText 400 ''Invalid or missing session ID''"

text \<open>\<^verbatim>\<open>checkAuth\<close>: strict equality of the header with the configured key.\<close>

definition checkAuth :: "string \<Rightarrow> 'b request \<Rightarrow> bool" where
  "checkAuth apiKey req = (x_api_key req = Some apiKey)"

text \<open>\<^verbatim>\<open>transports.has\<close>, \<^verbatim>\<open>transports.set\<close> and \<^verbatim>\<open>transports.delete\<close>.\<close>

definition has :: "state \<Rightarrow> string \<Rightarrow> bool" where
  "has st k = (transports st k \<noteq> None)"

definition set_transport :: "string \<Rightarrow> transport \<Rightarrow> state \<Rightarrow> state" where
  "set_transport k t st = st\<lparr>transports := (transports st)(k \<mapsto> t)\<rparr>"

text \<open>
  The teardown callback registered in the create branch,
  \<^verbatim>\<open>transport.onclose = () => transports.delete(newSessionId)\<close>, with the captured id
  as its argument.
\<close>

definition onclose :: "string \<Rightarrow> state \<Rightarrow> state" where
  "onclose newSessionId st = st\<lparr>transports := (transports st)(newSessionId := None)\<rparr>"

text \<open>
  The tail of the POST handler, \<^verbatim>\<open>await transport.handleRequest(req, res, req.body)\<close>
  inside \<^verbatim>\<open>try\<close>, with the \<^verbatim>\<open>catch\<close> block that answers only when no header has
  been sent.
\<close>

fun forward_caught :: "handle_result \<Rightarrow> transport \<Rightarrow> outcome" where
  "forward_caught Resolves t = Forwarded t Answered"
| "forward_caught (Rejects headersSent) t =
     (if \<not> headersSent then Forwarded t (Converted internal_error)
      else Forwarded t Swallowed)"

text \<open>
  The tail of the GET and DELETE handlers,
  \<^verbatim>\<open>await transports.get(sessionId)!.handleRequest(req, res)\<close>, which stands outside any
  \<^verbatim>\<open>try\<close>.
\<close>

fun forward_bare :: "handle_result \<Rightarrow> transport \<Rightarrow> outcome" where
  "forward_bare Resolves t = Forwarded t Answered"
| "forward_bare (Rejects headersSent) t = Forwarded t Uncaught"

text \<open>
  \<^verbatim>\<open>app.post("/mcp", ...)\<close>. The parameters are what the handler takes from outside:
  the predicate \<^verbatim>\<open>isInitializeRequest\<close>, the configured key, the value that
  \<^verbatim>\<open>randomUUID()\<close> returns when it is called, and the behaviour of
  \<^verbatim>\<open>handleRequest\<close>. Constructing the transport and the server and connecting them
  touch neither the registry nor the response and are taken to succeed: the one
  awaited call whose fault the model follows is \<^verbatim>\<open>handleRequest\<close>.
\<close>

definition mcp_post ::
  "('b \<Rightarrow> bool) \<Rightarrow> string \<Rightarrow> string \<Rightarrow> handle_result \<Rightarrow> state \<Rightarrow> 'b request
     \<Rightarrow> outcome \<times> state" where
  "mcp_post isInitializeRequest apiKey randomUUID hr st req =
     (if \<not> checkAuth apiKey req then (Replied unauthorized, st)
      else
        let sessionId = mcp_session_id req in
        if truthy sessionId \<and> has st (the sessionId) then
          (forward_caught hr (the (transports st (the sessionId))), st)
        else if \<not> truthy sessionId \<and> isInitializeRequest (body req) then
          let newSessionId = randomUUID;
              transport = allocated st;
              st' = set_transport newSessionId transport (st\<lparr>allocated := Suc (allocated st)\<rparr>)
          in (forward_caught hr transport, st')
        else (Replied bad_request, st))"

text \<open>\<^verbatim>\<open>app.get("/mcp", ...)\<close> and \<^verbatim>\<open>app.delete("/mcp", ...)\<close>: the same body twice.\<close>

definition mcp_get ::
  "string \<Rightarrow> handle_result \<Rightarrow> state \<Rightarrow> 'b request \<Rightarrow> outcome \<times> state" where
  "mcp_get apiKey hr st req =
     (if \<not> checkAuth apiKey req then (Replied unauthorized, st)
      else
        let sessionId = mcp_session_id req in
        if \<not> truthy sessionId \<or> \<not> has st (the sessionId) then (Replied invalid_session, st)
        else (forward_bare hr (the (transports st (the sessionId))), st))"

definition mcp_delete ::
  "string \<Rightarrow> handle_result \<Rightarrow> state \<Rightarrow> 'b request \<Rightarrow> outcome \<times> state" where
  "mcp_delete apiKey hr st req =
     (if \<not> checkAuth apiKey req then (Replied unauthorized, st)
      else
        let sessionId = mcp_session_id req in
        if \<not> truthy sessionId \<or> \<not> has st (the sessionId) then (Replied invalid_session, st)
        else (forward_bare hr (the (transports st (the sessionId))), st))"

text \<open>
  The server as the event loop sees it: one event is a request on one of the three
  verbs, given with what the outside supplies while it is handled, or the firing of
  the teardown callback of a transport created under some id. A request event yields
  an outcome, a teardown none.
\<close>

datatype 'b event =
    Post "'b request" string handle_result
  | Get "'b request" handle_result
  | Delete "'b request" handle_result
  | Close string

fun step ::
  "('b \<Rightarrow> bool) \<Rightarrow> string \<Rightarrow> state \<Rightarrow> 'b event \<Rightarrow> outcome option \<times> state" where
  "step isInitializeRequest apiKey st (Post req randomUUID hr) =
     (let (out, st') = mcp_post isInitializeRequest apiKey randomUUID hr st req
      in (Some out, st'))"
| "step isInitializeRequest apiKey st (Get req hr) =
     (let (out, st') = mcp_get apiKey hr st req in (Some out, st'))"
| "step isInitializeRequest apiKey st (Delete req hr) =
     (let (out, st') = mcp_delete apiKey hr st req in (Some out, st'))"
| "step isInitializeRequest apiKey st (Close newSessionId) = (None, onclose newSessionId st)"

fun run ::
  "('b \<Rightarrow> bool) \<Rightarrow> string \<Rightarrow> state \<Rightarrow> 'b event list \<Rightarrow> outcome option list \<times> state" where
  "run isInitializeRequest apiKey st [] = ([], st)"
| "run isInitializeRequest apiKey st (e # es) =
     (let (out, st') = step isInitializeRequest apiKey st e;
          (outs, st'') = run isInitializeRequest apiKey st' es
      in (out # outs, st''))"

text \<open>
  Vocabulary for statements about traces: the event is a request that carries the
  configured key and the session id \<open>sid\<close>; the event creates a session under the
  id \<open>sid\<close> or tears one down; and the reply each verb gives to an unknown session.
\<close>

fun carries :: "string \<Rightarrow> string \<Rightarrow> 'b event \<Rightarrow> bool" where
  "carries apiKey sid (Post req u hr) =
     (x_api_key req = Some apiKey \<and> mcp_session_id req = Some sid)"
| "carries apiKey sid (Get req hr) =
     (x_api_key req = Some apiKey \<and> mcp_session_id req = Some sid)"
| "carries apiKey sid (Delete req hr) =
     (x_api_key req = Some apiKey \<and> mcp_session_id req = Some sid)"
| "carries apiKey sid (Close k) = False"

fun unknown_session_reply :: "'b event \<Rightarrow> outcome option" where
  "unknown_session_reply (Post req u hr) = Some (Replied bad_request)"
| "unknown_session_reply (Get req hr) = Some (Replied invalid_session)"
| "unknown_session_reply (Delete req hr) = Some (Replied invalid_session)"
| "unknown_session_reply (Close k) = None"

fun generates :: "string \<Rightarrow> 'b event \<Rightarrow> bool" where
  "generates sid (Post req u hr) = (u = sid)"
| "generates sid (Get req hr) = False"
| "generates sid (Delete req hr) = False"
| "generates sid (Close k) = False"


text \<open>The outcome at one position of a trace is a forward to the transport \<open>t\<close>.\<close>

fun reaches :: "transport \<Rightarrow> outcome option \<Rightarrow> bool" where
  "reaches t (Some (Forwarded t' e)) = (t' = t)"
| "reaches t (Some (Replied r)) = False"
| "reaches t None = False"



section \<open>Numbers and \<^verbatim>\<open>parseInt\<close>\<close>

text \<open>
  The numbers that reach the capability client are \<^verbatim>\<open>NaN\<close> or integers: that is
  all \<^verbatim>\<open>parseInt\<close> returns for the digit strings a double represents exactly, and
  the defaults are the integer 20. Rounding of longer digit strings and the sign of
  zero are not represented.
\<close>

datatype js_number = NaN | Num int

definition isWhiteSpace :: "char \<Rightarrow> bool" where
  "isWhiteSpace c = (of_char c \<in> {9, 10, 11, 12, 13, 32, 160 :: nat})"

definition isDigit :: "char \<Rightarrow> bool" where
  "isDigit c = (48 \<le> (of_char c :: nat) \<and> (of_char c :: nat) \<le> 57)"

definition digitValue :: "char \<Rightarrow> int" where
  "digitValue c = int (of_char c) - 48"

text \<open>
  \<^verbatim>\<open>parseInt(string, 10)\<close>, the only radix the source passes: skip leading white
  space, take one optional sign, read the longest run of decimal digits; no digit
  gives \<^verbatim>\<open>NaN\<close>.
\<close>

definition parseInt :: "string \<Rightarrow> js_number" where
  "parseInt inputString =
     (let S = dropWhile isWhiteSpace inputString;
          sign = (if S \<noteq> [] \<and> hd S = CHR ''-'' then - 1 else 1);
          S' = (if S \<noteq> [] \<and> (hd S = CHR ''+'' \<or> hd S = CHR ''-'') then tl S else S);
          Z = takeWhile isDigit S'
      in if Z = [] then NaN
         else Num (sign * foldl (\<lambda>n c. 10 * n + digitValue c) 0 Z))"


section \<open>The capability client at its boundary\<close>

text \<open>
  One constructor per \<^verbatim>\<open>SlackService\<close> method, with the arguments a caller passes.
  The handlers take the client as a function from the call to its result and return
  the calls they made beside their reply.
\<close>

datatype slack_call =
    SendMessage string string
  | GetChannelHistory string js_number "string option"
  | SearchMessages string js_number
  | SearchUsers string
  | OpenDm string

text \<open>
  The default parameters of \<^verbatim>\<open>getChannelHistory(channel, limit = 20, cursor)\<close> and
  \<^verbatim>\<open>searchMessages(query, count = 20)\<close>: the argument object each passes upstream.
\<close>

definition getChannelHistory :: 
  "string \<Rightarrow> js_number option \<Rightarrow> string option \<Rightarrow> string \<times> js_number \<times> string option" where
  "getChannelHistory channel limit cursor =
     (channel, (case limit of None \<Rightarrow> Num 20 | Some l \<Rightarrow> l), cursor)"

definition searchMessages :: "string \<Rightarrow> js_number option \<Rightarrow> string \<times> js_number" where
  "searchMessages query count = (query, (case count of None \<Rightarrow> Num 20 | Some c \<Rightarrow> c))"

section \<open>The REST surface (auth.ts, index.ts)\<close>

text \<open>
  The four routes \<^verbatim>\<open>createApp\<close> registers, the history route with its
  \<^verbatim>\<open>:channelId\<close>, and the parts of a request the handlers read: the key header, the
  body, and the query values \<^verbatim>\<open>limit\<close>, \<^verbatim>\<open>cursor\<close>, \<^verbatim>\<open>query\<close> and \<^verbatim>\<open>count\<close>, each
  a string or missing. \<^verbatim>\<open>req.body\<close> is what the JSON body parser left: an object
  whose fields \<^verbatim>\<open>channel\<close> and \<^verbatim>\<open>text\<close> are strings or missing, as types.ts declares
  them, or \<^verbatim>\<open>undefined\<close> when no body was parsed (Express 5; Express 4 leaves an
  empty object).
\<close>

datatype route = Health | MessagesSend | ChannelHistory string | Search

record send_message_body =
  body_channel :: "string option"
  body_text :: "string option"

record rest_request =
  route :: route
  header_x_api_key :: "string option"
  parsed_body :: "send_message_body option"
  query_limit :: "string option"
  query_cursor :: "string option"
  query_query :: "string option"
  query_count :: "string option"

text \<open>
  \<^verbatim>\<open>res.status(s).json(result)\<close>; the health reply
  \<^verbatim>\<open>res.json({ok: true, status: "healthy"})\<close> with the default status 200; and a
  handler that throws before it writes anything, which leaves the reply to the
  framework's error handling (Express 5 answers 500).
\<close>

datatype 'a rest_response =
    Json nat "'a api_response"
  | Healthy
  | HandlerThrew

text \<open>
  \<^verbatim>\<open>requireApiKey(apiKey)\<close>: the middleware either calls \<^verbatim>\<open>next()\<close>, here its last
  argument, or answers 401 by itself.
\<close>

definition requireApiKey ::
  "string \<Rightarrow> rest_request \<Rightarrow> 'a rest_response \<times> slack_call list
     \<Rightarrow> 'a rest_response \<times> slack_call list" where
  "requireApiKey apiKey req next =
     (if header_x_api_key req = Some apiKey then next
      else (Json 401 (ApiError ''unauthorized'' (Some ''Missing or invalid API key'')), []))"

text \<open>
  \<^verbatim>\<open>const { channel, text } = req.body\<close> throws a TypeError on an undefined body;
  nothing guards it.
\<close>

definition messages_send ::
  "(slack_call \<Rightarrow> 'a api_response) \<Rightarrow> rest_request \<Rightarrow> 'a rest_response \<times> slack_call list" where
  "messages_send slack req =
     (case parsed_body req of
        None \<Rightarrow> (HandlerThrew, [])
      | Some b \<Rightarrow>
          let channel = body_channel b; text = body_text b in
          if \<not> truthy channel \<or> \<not> truthy text then
            (Json 400 (ApiError ''bad_request'' (Some ''channel and text are required'')), [])
          else
            let result = slack (SendMessage (the channel) (the text))
            in (Json (if ok result then 200 else 500) result,
                [SendMessage (the channel) (the text)]))"

definition channel_history ::
  "(slack_call \<Rightarrow> 'a api_response) \<Rightarrow> string \<Rightarrow> rest_request
     \<Rightarrow> 'a rest_response \<times> slack_call list" where
  "channel_history slack channelId req =
     (let limit = parseInt (or_default (query_limit req) ''20'');
          cursor = (if truthy (query_cursor req) then query_cursor req else None);
          result = slack (GetChannelHistory channelId limit cursor)
      in (Json (if ok result then 200 else 500) result,
          [GetChannelHistory channelId limit cursor]))"

definition search ::
  "(slack_call \<Rightarrow> 'a api_response) \<Rightarrow> rest_request \<Rightarrow> 'a rest_response \<times> slack_call list" where
  "search slack req =
     (let query = query_query req; count = query_count req in
      if \<not> truthy query then
        (Json 400 (ApiError ''bad_request'' (Some ''query parameter is required'')), [])
      else
        let result = slack (SearchMessages (the query) (parseInt (or_default count ''20'')))
        in (Json (if ok result then 200 else 500) result,
            [SearchMessages (the query) (parseInt (or_default count ''20''))]))"

text \<open>
  \<^verbatim>\<open>createApp\<close>: the middleware is mounted on the prefix \<^verbatim>\<open>/api\<close>, so it runs before
  the three routes below it and not before the health check.
\<close>

definition createApp ::
  "string \<Rightarrow> (slack_call \<Rightarrow> 'a api_response) \<Rightarrow> rest_request
     \<Rightarrow> 'a rest_response \<times> slack_call list" where
  "createApp apiKey slack req =
     (case route req of
        Health \<Rightarrow> (Healthy, [])
      | MessagesSend \<Rightarrow> requireApiKey apiKey req (messages_send slack req)
      | ChannelHistory channelId \<Rightarrow> requireApiKey apiKey req (channel_history slack channelId req)
      | Search \<Rightarrow> requireApiKey apiKey req (search slack req))"

section \<open>The RPC tools (createMcpServer)\<close>

text \<open>
  A tool call as the client sends it: the two optional numbers may be missing.
  The schema \<^verbatim>\<open>z.number().optional().default(20)\<close> puts 20 in their place before the
  callback runs.
\<close>

datatype tool_args =
    send_message string string
  | read_dm_history string "js_number option"
  | search_messages string "js_number option"
  | find_user string
  | open_dm string

fun zod_default :: "js_number \<Rightarrow> js_number option \<Rightarrow> js_number" where
  "zod_default d None = d"
| "zod_default d (Some v) = v"

text \<open>
  What a tool callback returns: \<^verbatim>\<open>{content: [{type: "text", text: ...}]}\<close>. The field
  \<^verbatim>\<open>isError\<close> of the protocol's result is never set by the source.
\<close>

datatype content_item = TextContent string

record call_tool_result =
  content :: "content_item list"
  isError :: "bool option"

text \<open>
  The five callbacks registered by \<^verbatim>\<open>createMcpServer\<close>. \<^verbatim>\<open>JSON.stringify\<close> is a
  parameter. The result is the callback's return value and the client calls it made.
\<close>

fun createMcpServer ::
  "('a api_response \<Rightarrow> string) \<Rightarrow> (slack_call \<Rightarrow> 'a api_response) \<Rightarrow> tool_args
     \<Rightarrow> call_tool_result \<times> slack_call list" where
  "createMcpServer JSON_stringify slack (send_message channel text) =
     (let result = slack (SendMessage channel text)
      in (\<lparr>content = [TextContent (JSON_stringify result)], isError = None\<rparr>,
          [SendMessage channel text]))"
| "createMcpServer JSON_stringify slack (read_dm_history channel_id limit) =
     (let limit' = zod_default (Num 20) limit;
          result = slack (GetChannelHistory channel_id limit' None)
      in (\<lparr>content = [TextContent (JSON_stringify result)], isError = None\<rparr>,
          [GetChannelHistory channel_id limit' None]))"
| "createMcpServer JSON_stringify slack (search_messages query count) =
     (let count' = zod_default (Num 20) count;
          result = slack (SearchMessages query count')
      in (\<lparr>content = [TextContent (JSON_stringify result)], isError = None\<rparr>,
          [SearchMessages query count']))"
| "createMcpServer JSON_stringify slack (find_user query) =
     (let result = slack (SearchUsers query)
      in (\<lparr>content = [TextContent (JSON_stringify result)], isError = None\<rparr>,
          [SearchUsers query]))"
| "createMcpServer JSON_stringify slack (open_dm user_id) =
     (let result = slack (OpenDm user_id)
      in (\<lparr>content = [TextContent (JSON_stringify result)], isError = None\<rparr>,
          [OpenDm user_id]))"

section \<open>\<^verbatim>\<open>SlackService.searchUsers\<close>\<close>

text \<open>
  The strings this method compares are JavaScript strings: lists of UTF-16 code
  units, a unit being a number below 65536. \<open>utf16\<close> gives the units of a literal of
  Basic Latin and Latin-1 characters.
\<close>

type_synonym js_string = "nat list"



record user =
  user_id :: "js_string option"
  user_name :: "js_string option"
  user_real_name :: "js_string option"




















section \<open>Facts about the model\<close>

lemmas rpc_defs = mcp_post_def mcp_get_def mcp_delete_def checkAuth_def has_def
  set_transport_def onclose_def Let_def

lemmas rest_defs = createApp_def requireApiKey_def messages_send_def channel_history_def
  search_def

lemmas parse_defs = parseInt_def isWhiteSpace_def isDigit_def digitValue_def

subsection \<open>Traces\<close>

lemma run_Cons:
  "run isInit apiKey st (e # es) =
     (fst (step isInit apiKey st e) # fst (run isInit apiKey (snd (step isInit apiKey st e)) es),
      snd (run isInit apiKey (snd (step isInit apiKey st e)) es))"
  by (simp split: prod.splits)

lemma step_unknown:
  assumes "sid \<noteq> []" and "transports st sid = None" and "carries apiKey sid e"
  shows "step isInit apiKey st e = (unknown_session_reply e, st)"
  using assms by (cases e) (auto simp: rpc_defs)

lemma run_unknown:
  assumes "sid \<noteq> []" and "transports st sid = None" and "\<forall>e\<in>set es. carries apiKey sid e"
  shows "run isInit apiKey st es = (map unknown_session_reply es, st)"
  using assms(3)
proof (induction es)
  case Nil
  then show ?case by simp
next
  case (Cons e es)
  then have "step isInit apiKey st e = (unknown_session_reply e, st)"
    using step_unknown[OF assms(1,2), of apiKey e isInit] by simp
  with Cons show ?case by (simp add: run_Cons del: run.simps)
qed

lemma reaches_forward [simp]:
  "reaches t (Some (forward_caught hr t))" "reaches t (Some (forward_bare hr t))"
  by (cases hr; simp)+


section \<open>The POST dispatcher\<close>

text \<open>
  C1, as the code has it. For every POST request that passes the auth gate: if the
  session-id header is a non-empty string that the registry maps to a transport, the
  request is forwarded to that transport and the registry is unchanged; if the header
  is absent or the empty string and the body satisfies the initialize predicate, the
  generated id is stored with a fresh transport and the request is forwarded to it;
  in every other case (header absent or empty and the body not an initialize call, or
  header non-empty and unknown) the reply is HTTP 400 with the error envelope of code
  -32000 and the registry is unchanged.
\<close>

theorem post_dispatch:
  assumes "x_api_key req = Some apiKey"
  shows "(\<forall>sid t. mcp_session_id req = Some sid \<and> sid \<noteq> [] \<and> transports st sid = Some t \<longrightarrow>
            mcp_post isInit apiKey u hr st req = (forward_caught hr t, st))
       \<and> ((mcp_session_id req = None \<or> mcp_session_id req = Some []) \<and> isInit (body req) \<longrightarrow>
            mcp_post isInit apiKey u hr st req =
              (forward_caught hr (allocated st),
               st\<lparr>transports := (transports st)(u \<mapsto> allocated st),
                  allocated := Suc (allocated st)\<rparr>))
       \<and> (((mcp_session_id req = None \<or> mcp_session_id req = Some []) \<and> \<not> isInit (body req))
            \<or> (\<exists>sid. mcp_session_id req = Some sid \<and> sid \<noteq> [] \<and> transports st sid = None) \<longrightarrow>
            mcp_post isInit apiKey u hr st req =
              (Replied (JsonRpcError 400 (- 32000)
                 ''Bad request: missing session ID or not an init request''), st))"
proof (intro conjI allI impI)
  fix sid t
  assume "mcp_session_id req = Some sid \<and> sid \<noteq> [] \<and> transports st sid = Some t"
  with assms show "mcp_post isInit apiKey u hr st req = (forward_caught hr t, st)"
    by (simp add: rpc_defs)
next
  assume "(mcp_session_id req = None \<or> mcp_session_id req = Some []) \<and> isInit (body req)"
  with assms show "mcp_post isInit apiKey u hr st req =
      (forward_caught hr (allocated st),
       st\<lparr>transports := (transports st)(u \<mapsto> allocated st), allocated := Suc (allocated st)\<rparr>)"
    by (auto simp: rpc_defs)
next
  assume "((mcp_session_id req = None \<or> mcp_session_id req = Some []) \<and> \<not> isInit (body req))
            \<or> (\<exists>sid. mcp_session_id req = Some sid \<and> sid \<noteq> [] \<and> transports st sid = None)"
  with assms show "mcp_post isInit apiKey u hr st req =
      (Replied (JsonRpcError 400 (- 32000)
         ''Bad request: missing session ID or not an init request''), st)"
    by (auto simp: rpc_defs bad_request_def)
qed

text \<open>
  The three cases at concrete requests, the body being the answer of the initialize
  predicate: a call on the live session \<open>s1\<close>; an initialize call without header;
  a call on the unknown session \<open>s9\<close>.
\<close>

theorem post_dispatch_witness:
  "mcp_post (\<lambda>b. b) ''key'' ''s2'' Resolves \<lparr>transports = [''s1'' \<mapsto> 0], allocated = 1\<rparr>
       \<lparr>x_api_key = Some ''key'', mcp_session_id = Some ''s1'', body = False\<rparr>
     = (Forwarded 0 Answered, \<lparr>transports = [''s1'' \<mapsto> 0], allocated = 1\<rparr>)
   \<and> mcp_post (\<lambda>b. b) ''key'' ''s2'' Resolves \<lparr>transports = [''s1'' \<mapsto> 0], allocated = 1\<rparr>
       \<lparr>x_api_key = Some ''key'', mcp_session_id = None, body = True\<rparr>
     = (Forwarded 1 Answered, \<lparr>transports = [''s1'' \<mapsto> 0, ''s2'' \<mapsto> 1], allocated = 2\<rparr>)
   \<and> mcp_post (\<lambda>b. b) ''key'' ''s2'' Resolves \<lparr>transports = [''s1'' \<mapsto> 0], allocated = 1\<rparr>
       \<lparr>x_api_key = Some ''key'', mcp_session_id = Some ''s9'', body = False\<rparr>
     = (Replied (JsonRpcError 400 (- 32000)
          ''Bad request: missing session ID or not an init request''),
        \<lparr>transports = [''s1'' \<mapsto> 0], allocated = 1\<rparr>)"
proof -
  let ?st = "\<lparr>transports = [''s1'' \<mapsto> (0::nat)], allocated = 1\<rparr>"
  let ?live = "\<lparr>x_api_key = Some ''key'', mcp_session_id = Some ''s1'', body = False\<rparr>"
  let ?init = "\<lparr>x_api_key = Some ''key'', mcp_session_id = None, body = True\<rparr>"
  let ?unknown = "\<lparr>x_api_key = Some ''key'', mcp_session_id = Some ''s9'', body = False\<rparr>"
  have "mcp_post (\<lambda>b. b) ''key'' ''s2'' Resolves ?st ?live = (forward_caught Resolves 0, ?st)"
    using post_dispatch[of ?live "''key''" ?st "\<lambda>b. b" "''s2''" Resolves] by simp
  moreover have "mcp_post (\<lambda>b. b) ''key'' ''s2'' Resolves ?st ?init =
      (forward_caught Resolves (allocated ?st),
       ?st\<lparr>transports := (transports ?st)(''s2'' \<mapsto> allocated ?st),
           allocated := Suc (allocated ?st)\<rparr>)"
    using post_dispatch[of ?init "''key''" ?st "\<lambda>b. b" "''s2''" Resolves] by simp
  moreover have "mcp_post (\<lambda>b. b) ''key'' ''s2'' Resolves ?st ?unknown =
      (Replied (JsonRpcError 400 (- 32000)
         ''Bad request: missing session ID or not an init request''), ?st)"
    using post_dispatch[of ?unknown "''key''" ?st "\<lambda>b. b" "''s2''" Resolves] by simp
  ultimately show ?thesis by simp
qed

text \<open>
  C1 as it is written fails on a header that is present and empty: the id is unknown
  to the registry, yet an initialize body makes the code create a session and forward
  the request instead of answering 400.
\<close>

theorem empty_session_header_creates_session:
  "mcp_session_id \<lparr>x_api_key = Some ''key'', mcp_session_id = Some [], body = True\<rparr> \<noteq> None
   \<and> transports \<lparr>transports = Map.empty, allocated = 0\<rparr> [] = None
   \<and> mcp_post (\<lambda>b. b) ''key'' ''123e4567-e89b-42d3-a456-426614174000'' Resolves
       \<lparr>transports = Map.empty, allocated = 0\<rparr>
       \<lparr>x_api_key = Some ''key'', mcp_session_id = Some [], body = True\<rparr>
     = (Forwarded 0 Answered,
        \<lparr>transports = [''123e4567-e89b-42d3-a456-426614174000'' \<mapsto> 0], allocated = 1\<rparr>)"
  by (simp add: rpc_defs)

section \<open>Faults while forwarding\<close>

text \<open>
  C2 at the place where the code departs from it. A request on a live session whose
  \<^verbatim>\<open>handleRequest\<close> rejects before any header is sent: on GET and on DELETE the
  fault leaves the route handler uncaught and the handler writes no reply; only on
  POST it is converted into the internal-error envelope with code -32603.
\<close>

theorem session_verbs_fault_uncaught:
  assumes "x_api_key req = Some apiKey" and "mcp_session_id req = Some sid" and "sid \<noteq> []"
      and "transports st sid = Some t"
  shows "mcp_get apiKey (Rejects False) st req = (Forwarded t Uncaught, st)
       \<and> mcp_delete apiKey (Rejects False) st req = (Forwarded t Uncaught, st)
       \<and> mcp_post isInit apiKey u (Rejects False) st req =
           (Forwarded t (Converted (JsonRpcError 500 (- 32603) ''Internal server error'')), st)"
  using assms by (simp add: rpc_defs internal_error_def)

theorem session_verbs_fault_uncaught_witness:
  "mcp_get ''key'' (Rejects False) \<lparr>transports = [''s1'' \<mapsto> 0], allocated = 1\<rparr>
       \<lparr>x_api_key = Some ''key'', mcp_session_id = Some ''s1'', body = False\<rparr>
     = (Forwarded 0 Uncaught, \<lparr>transports = [''s1'' \<mapsto> 0], allocated = 1\<rparr>)
   \<and> mcp_delete ''key'' (Rejects False) \<lparr>transports = [''s1'' \<mapsto> 0], allocated = 1\<rparr>
       \<lparr>x_api_key = Some ''key'', mcp_session_id = Some ''s1'', body = False\<rparr>
     = (Forwarded 0 Uncaught, \<lparr>transports = [''s1'' \<mapsto> 0], allocated = 1\<rparr>)
   \<and> mcp_post (\<lambda>b. b) ''key'' ''s2'' (Rejects False)
       \<lparr>transports = [''s1'' \<mapsto> 0], allocated = 1\<rparr>
       \<lparr>x_api_key = Some ''key'', mcp_session_id = Some ''s1'', body = False\<rparr>
     = (Forwarded 0 (Converted (JsonRpcError 500 (- 32603) ''Internal server error'')),
        \<lparr>transports = [''s1'' \<mapsto> 0], allocated = 1\<rparr>)"
  using session_verbs_fault_uncaught
    [of "\<lparr>x_api_key = Some ''key'', mcp_session_id = Some ''s1'', body = False\<rparr>" "''key''"
        "''s1''" "\<lparr>transports = [''s1'' \<mapsto> 0], allocated = 1\<rparr>" 0 "\<lambda>b. b" "''s2''"]
  by simp

section \<open>The auth gate\<close>

text \<open>
  C4. A request whose \<^verbatim>\<open>x-api-key\<close> header is absent or differs from the configured
  secret is answered with HTTP 401 and nothing else happens. On each of the three RPC
  verbs the reply is the error envelope with code -32000, no transport is invoked and
  the registry is unchanged; on each REST route under the middleware the body is
  \<^verbatim>\<open>{ok: false, error: "unauthorized", detail: "Missing or invalid API key"}\<close> and no
  call to the capability client is made.
\<close>

theorem unauthorized_is_rejected:
  assumes "x_api_key req \<noteq> Some apiKey"
      and "header_x_api_key rreq \<noteq> Some apiKey" and "route rreq \<noteq> Health"
  shows "mcp_post isInit apiKey u hr st req =
           (Replied (JsonRpcError 401 (- 32000) ''Unauthorized: invalid or missing API key''), st)
       \<and> mcp_get apiKey hr st req =
           (Replied (JsonRpcError 401 (- 32000) ''Unauthorized: invalid or missing API key''), st)
       \<and> mcp_delete apiKey hr st req =
           (Replied (JsonRpcError 401 (- 32000) ''Unauthorized: invalid or missing API key''), st)
       \<and> createApp apiKey slack rreq =
           (Json 401 (ApiError ''unauthorized'' (Some ''Missing or invalid API key'')), [])"
  using assms by (cases "route rreq") (simp_all add: rpc_defs rest_defs unauthorized_def)

text \<open>
  A request without the header on a live session, and a search request with a wrong
  key, against a client that would succeed.
\<close>

theorem unauthorized_is_rejected_witness:
  "mcp_post (\<lambda>b. b) ''key'' ''s2'' Resolves \<lparr>transports = [''s1'' \<mapsto> 0], allocated = 1\<rparr>
       \<lparr>x_api_key = None, mcp_session_id = Some ''s1'', body = True\<rparr>
     = (Replied (JsonRpcError 401 (- 32000) ''Unauthorized: invalid or missing API key''),
        \<lparr>transports = [''s1'' \<mapsto> 0], allocated = 1\<rparr>)
   \<and> mcp_get ''key'' Resolves \<lparr>transports = [''s1'' \<mapsto> 0], allocated = 1\<rparr>
       \<lparr>x_api_key = None, mcp_session_id = Some ''s1'', body = True\<rparr>
     = (Replied (JsonRpcError 401 (- 32000) ''Unauthorized: invalid or missing API key''),
        \<lparr>transports = [''s1'' \<mapsto> 0], allocated = 1\<rparr>)
   \<and> mcp_delete ''key'' Resolves \<lparr>transports = [''s1'' \<mapsto> 0], allocated = 1\<rparr>
       \<lparr>x_api_key = None, mcp_session_id = Some ''s1'', body = True\<rparr>
     = (Replied (JsonRpcError 401 (- 32000) ''Unauthorized: invalid or missing API key''),
        \<lparr>transports = [''s1'' \<mapsto> 0], allocated = 1\<rparr>)
   \<and> createApp ''key'' (\<lambda>c. ApiSuccess ())
       \<lparr>route = Search, header_x_api_key = Some ''wrong-key'', parsed_body = None, query_limit = None, query_cursor = None,
        query_query = Some ''test'', query_count = None\<rparr>
     = (Json 401 (ApiError ''unauthorized'' (Some ''Missing or invalid API key'')), [])"
  using unauthorized_is_rejected
    [of "\<lparr>x_api_key = None, mcp_session_id = Some ''s1'', body = True\<rparr>" "''key''"
        "\<lparr>route = Search, header_x_api_key = Some ''wrong-key'', parsed_body = None, query_limit = None, query_cursor = None,
          query_query = Some ''test'', query_count = None\<rparr>"
        "\<lambda>b. b" "''s2''" Resolves "\<lparr>transports = [''s1'' \<mapsto> 0], allocated = 1\<rparr>"
        "\<lambda>c. ApiSuccess ()"]
  by simp

section \<open>Session identity\<close>





section \<open>Closed sessions\<close>

lemma step_keeps_unknown:
  assumes "transports st sid = None" and "\<not> generates sid e"
  shows "transports (snd (step isInit apiKey st e)) sid = None"
  using assms by (cases e) (auto simp: rpc_defs)

lemma run_keeps_unknown:
  assumes "sid \<noteq> []"
  shows "transports st sid = None \<Longrightarrow> \<forall>e\<in>set es. \<not> generates sid e \<Longrightarrow>
     transports (snd (run isInit apiKey st es)) sid = None \<and>
     (\<forall>i<length es. carries apiKey sid (es ! i) \<longrightarrow>
        fst (run isInit apiKey st es) ! i = unknown_session_reply (es ! i))"
proof (induction es arbitrary: st)
  case Nil
  then show ?case by simp
next
  case (Cons e es)
  let ?st' = "snd (step isInit apiKey st e)"
  have unknown': "transports ?st' sid = None"
    using step_keeps_unknown[of st sid e isInit apiKey] Cons.prems by simp
  have IH: "transports (snd (run isInit apiKey ?st' es)) sid = None \<and>
     (\<forall>i<length es. carries apiKey sid (es ! i) \<longrightarrow>
        fst (run isInit apiKey ?st' es) ! i = unknown_session_reply (es ! i))"
    using Cons.IH[OF unknown'] Cons.prems(2) by simp
  have first: "carries apiKey sid e \<Longrightarrow> fst (step isInit apiKey st e) = unknown_session_reply e"
    using step_unknown[OF assms Cons.prems(1), of apiKey e isInit] by simp
  show ?case
  proof (intro conjI allI impI)
    show "transports (snd (run isInit apiKey st (e # es))) sid = None"
      using IH by (simp add: run_Cons del: run.simps)
  next
    fix i
    assume i: "i < length (e # es)" and c: "carries apiKey sid ((e # es) ! i)"
    show "fst (run isInit apiKey st (e # es)) ! i = unknown_session_reply ((e # es) ! i)"
    proof (cases i)
      case 0
      with c first show ?thesis by (simp add: run_Cons del: run.simps)
    next
      case (Suc j)
      with i c IH show ?thesis by (simp add: run_Cons del: run.simps)
    qed
  qed
qed

text \<open>
  C6. Once the teardown callback of a session has removed its registry entry, then
  along every sequence of later events, whatever other clients do in between, as long
  as no initialize call is handed the closed id again: every request that carries the
  key and the closed id is rejected as an unknown session with HTTP 400, POST with the
  bad-request envelope, GET and DELETE with the plain text
  \<^verbatim>\<open>Invalid or missing session ID\<close>; none is forwarded to a transport; and the id is
  still unknown at the end. A second DELETE is a repeat of the same rejection, and when
  all events are such requests the registry stays as the teardown left it. Session ids
  are the strings \<^verbatim>\<open>randomUUID\<close> returns, hence not empty.
\<close>

theorem closed_session_is_unknown:
  assumes "sid \<noteq> []"
  shows "((\<forall>e\<in>set es. \<not> generates sid e) \<longrightarrow>
            (\<forall>i<length es. carries apiKey sid (es ! i) \<longrightarrow>
               fst (run isInit apiKey (onclose sid st) es) ! i = unknown_session_reply (es ! i))
            \<and> transports (snd (run isInit apiKey (onclose sid st) es)) sid = None)
       \<and> ((\<forall>e\<in>set es. carries apiKey sid e) \<longrightarrow>
            run isInit apiKey (onclose sid st) es =
              (map unknown_session_reply es, onclose sid st))"
proof -
  have closed: "transports (onclose sid st) sid = None"
    by (simp add: onclose_def)
  have general: "(\<forall>i<length es. carries apiKey sid (es ! i) \<longrightarrow>
        fst (run isInit apiKey (onclose sid st) es) ! i = unknown_session_reply (es ! i))
      \<and> transports (snd (run isInit apiKey (onclose sid st) es)) sid = None"
    if "\<forall>e\<in>set es. \<not> generates sid e"
    using run_keeps_unknown[OF assms closed that, of isInit apiKey] by blast
  have only: "run isInit apiKey (onclose sid st) es =
      (map unknown_session_reply es, onclose sid st)"
    if "\<forall>e\<in>set es. carries apiKey sid e"
    using run_unknown[OF assms closed that] .
  from general only show ?thesis by blast
qed

text \<open>
  After the teardown of \<open>s1\<close>: a DELETE on \<open>s1\<close>, an initialize call of another
  client that receives \<open>s2\<close>, a second DELETE on \<open>s1\<close>, a POST on \<open>s1\<close> carrying
  an initialize body, the teardown of \<open>s2\<close>, and a GET on \<open>s1\<close>. Then the same
  four requests on \<open>s1\<close> alone.
\<close>

theorem closed_session_is_unknown_witness:
  "fst (run (\<lambda>b. b) ''key'' (onclose ''s1'' \<lparr>transports = [''s1'' \<mapsto> 0], allocated = 1\<rparr>)
     [Delete \<lparr>x_api_key = Some ''key'', mcp_session_id = Some ''s1'', body = False\<rparr> Resolves,
      Post \<lparr>x_api_key = Some ''key'', mcp_session_id = None, body = True\<rparr> ''s2'' Resolves,
      Delete \<lparr>x_api_key = Some ''key'', mcp_session_id = Some ''s1'', body = False\<rparr> Resolves,
      Post \<lparr>x_api_key = Some ''key'', mcp_session_id = Some ''s1'', body = True\<rparr>
        ''s3'' Resolves,
      Close ''s2'',
      Get \<lparr>x_api_key = Some ''key'', mcp_session_id = Some ''s1'', body = False\<rparr> Resolves])
   = [Some (Replied (PlainText 400 ''Invalid or missing session ID'')),
      Some (Forwarded 1 Answered),
      Some (Replied (PlainText 400 ''Invalid or missing session ID'')),
      Some (Replied (JsonRpcError 400 (- 32000)
        ''Bad request: missing session ID or not an init request'')),
      None,
      Some (Replied (PlainText 400 ''Invalid or missing session ID''))]
   \<and> run (\<lambda>b. b) ''key'' (onclose ''s1'' \<lparr>transports = [''s1'' \<mapsto> 0], allocated = 1\<rparr>)
     [Delete \<lparr>x_api_key = Some ''key'', mcp_session_id = Some ''s1'', body = False\<rparr> Resolves,
      Delete \<lparr>x_api_key = Some ''key'', mcp_session_id = Some ''s1'', body = False\<rparr> Resolves,
      Post \<lparr>x_api_key = Some ''key'', mcp_session_id = Some ''s1'', body = True\<rparr>
        ''s3'' Resolves,
      Get \<lparr>x_api_key = Some ''key'', mcp_session_id = Some ''s1'', body = False\<rparr> Resolves]
   = ([Some (Replied (PlainText 400 ''Invalid or missing session ID'')),
       Some (Replied (PlainText 400 ''Invalid or missing session ID'')),
       Some (Replied (JsonRpcError 400 (- 32000)
         ''Bad request: missing session ID or not an init request'')),
       Some (Replied (PlainText 400 ''Invalid or missing session ID''))],
      onclose ''s1'' \<lparr>transports = [''s1'' \<mapsto> 0], allocated = 1\<rparr>)"
proof -
  let ?st = "\<lparr>transports = [''s1'' \<mapsto> (0::nat)], allocated = 1\<rparr>"
  let ?del = "Delete \<lparr>x_api_key = Some ''key'', mcp_session_id = Some ''s1'', body = False\<rparr>
    Resolves"
  let ?post = "Post \<lparr>x_api_key = Some ''key'', mcp_session_id = Some ''s1'', body = True\<rparr>
    ''s3'' Resolves"
  let ?get = "Get \<lparr>x_api_key = Some ''key'', mcp_session_id = Some ''s1'', body = False\<rparr>
    Resolves"
  let ?other = "Post \<lparr>x_api_key = Some ''key'', mcp_session_id = None, body = True\<rparr>
    ''s2'' Resolves"
  let ?mixed = "[?del, ?other, ?del, ?post, Close ''s2'', ?get]"
  let ?alone = "[?del, ?del, ?post, ?get]"
  let ?outs = "fst (run (\<lambda>b. b) ''key'' (onclose ''s1'' ?st) ?mixed)"
  have ne: "''s1'' \<noteq> []" by simp
  have nogen: "\<forall>e\<in>set ?mixed. \<not> generates ''s1'' e" by simp
  from closed_session_is_unknown[OF ne, of ?mixed "''key''" "\<lambda>b. b" ?st] nogen
  have at: "\<forall>i<length ?mixed. carries ''key'' ''s1'' (?mixed ! i) \<longrightarrow>
      ?outs ! i = unknown_session_reply (?mixed ! i)"
    by blast
  have len: "length ?outs = 6"
    by (simp add: rpc_defs)
  have o0: "?outs ! 0 = Some (Replied invalid_session)" using at by force
  have o2: "?outs ! 2 = Some (Replied invalid_session)" using at by force
  have o3: "?outs ! 3 = Some (Replied bad_request)" using at by force
  have o5: "?outs ! 5 = Some (Replied invalid_session)" using at by force
  have o1: "?outs ! 1 = Some (Forwarded 1 Answered)" by (simp add: rpc_defs)
  have o4: "?outs ! 4 = None" by (simp add: rpc_defs)
  have mixed: "?outs = [Some (Replied invalid_session), Some (Forwarded 1 Answered),
      Some (Replied invalid_session), Some (Replied bad_request), None,
      Some (Replied invalid_session)]"
    using len o0 o1 o2 o3 o4 o5
    by (intro nth_equalityI) (auto simp: less_Suc_eq numeral_eq_Suc)
  have all: "\<forall>e\<in>set ?alone. carries ''key'' ''s1'' e" by simp
  from closed_session_is_unknown[OF ne, of ?alone "''key''" "\<lambda>b. b" ?st] all
  have alone: "run (\<lambda>b. b) ''key'' (onclose ''s1'' ?st) ?alone =
      (map unknown_session_reply ?alone, onclose ''s1'' ?st)"
    by blast
  from mixed alone show ?thesis
    by (simp add: invalid_session_def bad_request_def)
qed

section \<open>The REST handlers and the tools\<close>

lemma parseInt_20: "parseInt ''20'' = Num 20"
  by (simp add: parse_defs)

text \<open>
  C3. A failure returned by the capability client is delivered. Each of the three
  REST handlers, on an authenticated request that passes its validation, makes its one
  call, and when the client answers that call with a failure the reply is HTTP 500
  with that failure as the body, unchanged. Each of the five tool callbacks makes its
  one call, and when the client answers it with a failure the callback returns a
  result without error flag whose single text item is the JSON serialization of that
  failure.
\<close>

theorem failure_is_delivered:
  "(header_x_api_key req = Some apiKey \<and> route req = MessagesSend \<and> parsed_body req = Some b
      \<and> body_channel b = Some channel \<and> channel \<noteq> [] \<and> body_text b = Some msg \<and> msg \<noteq> []
      \<and> slack (SendMessage channel msg) = ApiError e d
      \<longrightarrow> createApp apiKey slack req = (Json 500 (ApiError e d), [SendMessage channel msg]))
   \<and> (header_x_api_key req = Some apiKey \<and> route req = ChannelHistory channelId
      \<and> slack (GetChannelHistory channelId (parseInt (or_default (query_limit req) ''20''))
           (if truthy (query_cursor req) then query_cursor req else None)) = ApiError e d
      \<longrightarrow> createApp apiKey slack req =
            (Json 500 (ApiError e d),
             [GetChannelHistory channelId (parseInt (or_default (query_limit req) ''20''))
                (if truthy (query_cursor req) then query_cursor req else None)]))
   \<and> (header_x_api_key req = Some apiKey \<and> route req = Search \<and> query_query req = Some q
      \<and> q \<noteq> []
      \<and> slack (SearchMessages q (parseInt (or_default (query_count req) ''20''))) = ApiError e d
      \<longrightarrow> createApp apiKey slack req =
            (Json 500 (ApiError e d),
             [SearchMessages q (parseInt (or_default (query_count req) ''20''))]))
   \<and> (slack (SendMessage channel msg) = ApiError e d
      \<longrightarrow> createMcpServer JSON_stringify slack (send_message channel msg) =
            (\<lparr>content = [TextContent (JSON_stringify (ApiError e d))], isError = None\<rparr>,
             [SendMessage channel msg]))
   \<and> (slack (GetChannelHistory channel_id (zod_default (Num 20) limit) None) = ApiError e d
      \<longrightarrow> createMcpServer JSON_stringify slack (read_dm_history channel_id limit) =
            (\<lparr>content = [TextContent (JSON_stringify (ApiError e d))], isError = None\<rparr>,
             [GetChannelHistory channel_id (zod_default (Num 20) limit) None]))
   \<and> (slack (SearchMessages query (zod_default (Num 20) count)) = ApiError e d
      \<longrightarrow> createMcpServer JSON_stringify slack (search_messages query count) =
            (\<lparr>content = [TextContent (JSON_stringify (ApiError e d))], isError = None\<rparr>,
             [SearchMessages query (zod_default (Num 20) count)]))
   \<and> (slack (SearchUsers query) = ApiError e d
      \<longrightarrow> createMcpServer JSON_stringify slack (find_user query) =
            (\<lparr>content = [TextContent (JSON_stringify (ApiError e d))], isError = None\<rparr>,
             [SearchUsers query]))
   \<and> (slack (OpenDm user) = ApiError e d
      \<longrightarrow> createMcpServer JSON_stringify slack (open_dm user) =
            (\<lparr>content = [TextContent (JSON_stringify (ApiError e d))], isError = None\<rparr>,
             [OpenDm user]))"
  by (simp add: rest_defs Let_def)

text \<open>
  A client that fails every call with \<open>channel_not_found\<close>, asked through each of
  the three routes and each of the five tools; the serializer of the example writes
  the error code only.
\<close>

theorem failure_is_delivered_witness:
  "createApp ''key'' (\<lambda>c. ApiError ''channel_not_found'' (Some ''An API error occurred''))
       \<lparr>route = MessagesSend, header_x_api_key = Some ''key'',
        parsed_body = Some \<lparr>body_channel = Some ''C_BAD'', body_text = Some ''Hello''\<rparr>,
        query_limit = None, query_cursor = None, query_query = None, query_count = None\<rparr>
     = (Json 500 (ApiError ''channel_not_found'' (Some ''An API error occurred'')
          :: unit api_response),
        [SendMessage ''C_BAD'' ''Hello''])
   \<and> createApp ''key'' (\<lambda>c. ApiError ''channel_not_found'' (Some ''An API error occurred''))
       \<lparr>route = ChannelHistory ''C_BAD'', header_x_api_key = Some ''key'', parsed_body = None,
        query_limit = None, query_cursor = None, query_query = None, query_count = None\<rparr>
     = (Json 500 (ApiError ''channel_not_found'' (Some ''An API error occurred'')
          :: unit api_response),
        [GetChannelHistory ''C_BAD'' (Num 20) None])
   \<and> createApp ''key'' (\<lambda>c. ApiError ''channel_not_found'' (Some ''An API error occurred''))
       \<lparr>route = Search, header_x_api_key = Some ''key'', parsed_body = None,
        query_limit = None, query_cursor = None, query_query = Some ''poke'',
        query_count = None\<rparr>
     = (Json 500 (ApiError ''channel_not_found'' (Some ''An API error occurred'')
          :: unit api_response),
        [SearchMessages ''poke'' (Num 20)])
   \<and> map (\<lambda>args. createMcpServer (\<lambda>r. case r of ApiSuccess x \<Rightarrow> ''ok'' | ApiError e d \<Rightarrow> e)
         (\<lambda>c. ApiError ''channel_not_found'' (Some ''An API error occurred'') :: unit api_response)
         args)
       [send_message ''C_BAD'' ''Hello'', read_dm_history ''C_BAD'' None,
        search_messages ''poke'' (Some (Num 5)), find_user ''ali'', open_dm ''U1'']
     = [(\<lparr>content = [TextContent ''channel_not_found''], isError = None\<rparr>,
         [SendMessage ''C_BAD'' ''Hello'']),
        (\<lparr>content = [TextContent ''channel_not_found''], isError = None\<rparr>,
         [GetChannelHistory ''C_BAD'' (Num 20) None]),
        (\<lparr>content = [TextContent ''channel_not_found''], isError = None\<rparr>,
         [SearchMessages ''poke'' (Num 5)]),
        (\<lparr>content = [TextContent ''channel_not_found''], isError = None\<rparr>,
         [SearchUsers ''ali'']),
        (\<lparr>content = [TextContent ''channel_not_found''], isError = None\<rparr>,
         [OpenDm ''U1''])]"
proof -
  let ?slack = "\<lambda>c :: slack_call.
    ApiError ''channel_not_found'' (Some ''An API error occurred'') :: unit api_response"
  let ?js = "\<lambda>r :: unit api_response. case r of ApiSuccess x \<Rightarrow> ''ok'' | ApiError e d \<Rightarrow> e"
  let ?b = "\<lparr>body_channel = Some ''C_BAD'', body_text = Some ''Hello''\<rparr>"
  let ?send = "\<lparr>route = MessagesSend, header_x_api_key = Some ''key'', parsed_body = Some ?b,
    query_limit = None, query_cursor = None, query_query = None, query_count = None\<rparr>"
  let ?hist = "\<lparr>route = ChannelHistory ''C_BAD'', header_x_api_key = Some ''key'',
    parsed_body = None, query_limit = None, query_cursor = None, query_query = None,
    query_count = None\<rparr>"
  let ?srch = "\<lparr>route = Search, header_x_api_key = Some ''key'', parsed_body = None,
    query_limit = None, query_cursor = None, query_query = Some ''poke'',
    query_count = None\<rparr>"
  have "createApp ''key'' ?slack ?send
      = (Json 500 (ApiError ''channel_not_found'' (Some ''An API error occurred'')),
         [SendMessage ''C_BAD'' ''Hello''])"
    using failure_is_delivered
      [where req = ?send and apiKey = "''key''" and slack = ?slack and b = ?b
         and channel = "''C_BAD''" and msg = "''Hello''" and e = "''channel_not_found''"
         and d = "Some ''An API error occurred''"]
    by simp
  moreover have "createApp ''key'' ?slack ?hist
      = (Json 500 (ApiError ''channel_not_found'' (Some ''An API error occurred'')),
         [GetChannelHistory ''C_BAD'' (Num 20) None])"
    using failure_is_delivered
      [where req = ?hist and apiKey = "''key''" and slack = ?slack
         and channelId = "''C_BAD''" and e = "''channel_not_found''"
         and d = "Some ''An API error occurred''"]
    by (simp add: parseInt_20)
  moreover have "createApp ''key'' ?slack ?srch
      = (Json 500 (ApiError ''channel_not_found'' (Some ''An API error occurred'')),
         [SearchMessages ''poke'' (Num 20)])"
    using failure_is_delivered
      [where req = ?srch and apiKey = "''key''" and slack = ?slack and q = "''poke''"
         and e = "''channel_not_found''" and d = "Some ''An API error occurred''"]
    by (simp add: parseInt_20)
  moreover have "createMcpServer ?js ?slack (send_message ''C_BAD'' ''Hello'')
        = (\<lparr>content = [TextContent ''channel_not_found''], isError = None\<rparr>,
           [SendMessage ''C_BAD'' ''Hello''])"
      "createMcpServer ?js ?slack (read_dm_history ''C_BAD'' None)
        = (\<lparr>content = [TextContent ''channel_not_found''], isError = None\<rparr>,
           [GetChannelHistory ''C_BAD'' (Num 20) None])"
      "createMcpServer ?js ?slack (search_messages ''poke'' (Some (Num 5)))
        = (\<lparr>content = [TextContent ''channel_not_found''], isError = None\<rparr>,
           [SearchMessages ''poke'' (Num 5)])"
      "createMcpServer ?js ?slack (find_user ''ali'')
        = (\<lparr>content = [TextContent ''channel_not_found''], isError = None\<rparr>,
           [SearchUsers ''ali''])"
      "createMcpServer ?js ?slack (open_dm ''U1'')
        = (\<lparr>content = [TextContent ''channel_not_found''], isError = None\<rparr>, [OpenDm ''U1''])"
    using failure_is_delivered
      [where slack = ?slack and JSON_stringify = ?js and channel = "''C_BAD''"
         and msg = "''Hello''" and channel_id = "''C_BAD''" and limit = None
         and query = "''poke''" and count = "Some (Num 5)" and user = "''U1''"
         and e = "''channel_not_found''" and d = "Some ''An API error occurred''"]
      failure_is_delivered
      [where slack = ?slack and JSON_stringify = ?js and query = "''ali''"
         and e = "''channel_not_found''" and d = "Some ''An API error occurred''"]
    by (simp_all del: createMcpServer.simps)
  ultimately show ?thesis by (simp del: createMcpServer.simps)
qed

text \<open>
  C7 at the place where the code departs from it. An authenticated
  POST /api/messages/send for which no body was parsed lacks channel and text, yet the
  handler throws on the destructuring of \<^verbatim>\<open>req.body\<close>: it writes no 400 reply and makes
  no call. For a parsed body the claim holds: when channel or text is absent or empty
  the reply is HTTP 400 with
  \<^verbatim>\<open>{ok: false, error: "bad_request", detail: "channel and text are required"}\<close> and
  the capability client is not called; when both are present and not empty, the one
  call made is \<^verbatim>\<open>sendMessage\<close> with exactly those two values.
\<close>

lemma truthy_iff: "truthy x \<longleftrightarrow> (\<exists>s. x = Some s \<and> s \<noteq> [])"
  by (cases x) auto

theorem messages_send_validation:
  assumes "route req = MessagesSend" and "header_x_api_key req = Some apiKey"
  shows "(parsed_body req = None \<longrightarrow> createApp apiKey slack req = (HandlerThrew, []))
       \<and> (\<forall>b. parsed_body req = Some b \<and>
            (body_channel b = None \<or> body_channel b = Some [] \<or>
             body_text b = None \<or> body_text b = Some [])
          \<longrightarrow> createApp apiKey slack req =
                (Json 400 (ApiError ''bad_request'' (Some ''channel and text are required'')), []))
       \<and> (\<forall>b channel text. parsed_body req = Some b \<and>
            body_channel b = Some channel \<and> channel \<noteq> [] \<and>
            body_text b = Some text \<and> text \<noteq> []
          \<longrightarrow> snd (createApp apiKey slack req) = [SendMessage channel text])"
  using assms by (auto simp: rest_defs Let_def truthy_iff)

text \<open>
  A request without body; the second scenario of the specification, a body without
  channel; and the first, a body with both.
\<close>

theorem messages_send_validation_witness:
  "createApp ''test-key'' (\<lambda>c. ApiSuccess (''1.0'', ''C01''))
       \<lparr>route = MessagesSend, header_x_api_key = Some ''test-key'', parsed_body = None,
        query_limit = None, query_cursor = None, query_query = None, query_count = None\<rparr>
     = (HandlerThrew, [])
   \<and> createApp ''test-key'' (\<lambda>c. ApiSuccess (''1.0'', ''C01''))
       \<lparr>route = MessagesSend, header_x_api_key = Some ''test-key'',
        parsed_body = Some \<lparr>body_channel = None, body_text = Some ''Hello''\<rparr>,
        query_limit = None, query_cursor = None, query_query = None, query_count = None\<rparr>
     = (Json 400 (ApiError ''bad_request'' (Some ''channel and text are required'')), [])
   \<and> snd (createApp ''test-key'' (\<lambda>c. ApiSuccess (''1.0'', ''C01''))
       \<lparr>route = MessagesSend, header_x_api_key = Some ''test-key'',
        parsed_body = Some \<lparr>body_channel = Some ''C01'', body_text = Some ''Hello''\<rparr>,
        query_limit = None, query_cursor = None, query_query = None, query_count = None\<rparr>)
     = [SendMessage ''C01'' ''Hello'']"
proof -
  let ?slack = "\<lambda>c :: slack_call. ApiSuccess (''1.0'', ''C01'') :: (string \<times> string) api_response"
  let ?req = "\<lambda>b. \<lparr>route = MessagesSend, header_x_api_key = Some ''test-key'', parsed_body = b,
    query_limit = None, query_cursor = None, query_query = None, query_count = None\<rparr>"
  let ?bad = "\<lparr>body_channel = None, body_text = Some ''Hello''\<rparr>"
  let ?good = "\<lparr>body_channel = Some ''C01'', body_text = Some ''Hello''\<rparr>"
  have "createApp ''test-key'' ?slack (?req None) = (HandlerThrew, [])"
    using messages_send_validation[of "?req None" "''test-key''" ?slack] by simp
  moreover have "createApp ''test-key'' ?slack (?req (Some ?bad))
      = (Json 400 (ApiError ''bad_request'' (Some ''channel and text are required'')), [])"
    using messages_send_validation[of "?req (Some ?bad)" "''test-key''" ?slack] by simp
  moreover have "snd (createApp ''test-key'' ?slack (?req (Some ?good)))
      = [SendMessage ''C01'' ''Hello'']"
    using messages_send_validation[of "?req (Some ?good)" "''test-key''" ?slack] by simp
  ultimately show ?thesis by simp
qed

text \<open>
  C8. When the caller omits the optional parameter, the history operations call the
  capability client with limit 20 and the search operations with count 20: the REST
  history and search handlers through \<^verbatim>\<open>parseInt(x || "20", 10)\<close>, the tools
  \<^verbatim>\<open>read_dm_history\<close> and \<^verbatim>\<open>search_messages\<close> through the schema default, and the
  client's own methods through their default parameters.
\<close>

theorem omitted_parameter_defaults_to_20:
  "(header_x_api_key req = Some apiKey \<and> route req = ChannelHistory channelId
        \<and> query_limit req = None
      \<longrightarrow> snd (createApp apiKey slack req) =
            [GetChannelHistory channelId (Num 20)
               (if truthy (query_cursor req) then query_cursor req else None)])
   \<and> (header_x_api_key req = Some apiKey \<and> route req = Search \<and> query_query req = Some q
        \<and> q \<noteq> [] \<and> query_count req = None
      \<longrightarrow> snd (createApp apiKey slack req) = [SearchMessages q (Num 20)])
   \<and> snd (createMcpServer JSON_stringify slack (read_dm_history channel_id None)) =
        [GetChannelHistory channel_id (Num 20) None]
   \<and> snd (createMcpServer JSON_stringify slack (search_messages query None)) =
        [SearchMessages query (Num 20)]
   \<and> getChannelHistory channel None cursor = (channel, Num 20, cursor)
   \<and> searchMessages query None = (query, Num 20)"
  by (simp add: rest_defs Let_def parseInt_20 getChannelHistory_def searchMessages_def)

text \<open>
  The history of channel \<open>C01ABC\<close> and a search for \<open>poke\<close>, both without the
  optional parameter, on the REST surface.
\<close>

theorem omitted_parameter_defaults_to_20_witness:
  "snd (createApp ''test-key'' (\<lambda>c. ApiSuccess ())
         \<lparr>route = ChannelHistory ''C01ABC'', header_x_api_key = Some ''test-key'',
          parsed_body = None, query_limit = None, query_cursor = None,
          query_query = None, query_count = None\<rparr>)
     = [GetChannelHistory ''C01ABC'' (Num 20) None]
   \<and> snd (createApp ''test-key'' (\<lambda>c. ApiSuccess ())
         \<lparr>route = Search, header_x_api_key = Some ''test-key'',
          parsed_body = None, query_limit = None, query_cursor = None,
          query_query = Some ''poke'', query_count = None\<rparr>)
     = [SearchMessages ''poke'' (Num 20)]"
proof -
  let ?slack = "\<lambda>c :: slack_call. ApiSuccess () :: unit api_response"
  let ?hist = "\<lparr>route = ChannelHistory ''C01ABC'', header_x_api_key = Some ''test-key'',
    parsed_body = None, query_limit = None, query_cursor = None,
    query_query = None, query_count = None\<rparr>"
  let ?srch = "\<lparr>route = Search, header_x_api_key = Some ''test-key'',
    parsed_body = None, query_limit = None, query_cursor = None,
    query_query = Some ''poke'', query_count = None\<rparr>"
  have "snd (createApp ''test-key'' ?slack ?hist) = [GetChannelHistory ''C01ABC'' (Num 20) None]"
    using omitted_parameter_defaults_to_20
      [where req = ?hist and apiKey = "''test-key''" and slack = ?slack
         and channelId = "''C01ABC''"]
    by simp
  moreover have "snd (createApp ''test-key'' ?slack ?srch) = [SearchMessages ''poke'' (Num 20)]"
    using omitted_parameter_defaults_to_20
      [where req = ?srch and apiKey = "''test-key''" and slack = ?slack and q = "''poke''"]
    by simp
  ultimately show ?thesis by simp
qed










section \<open>Searching users\<close>













end
